theory Spec2Isabelle
  imports Complex_Main "HOL-Library.Multiset"
begin

section \<open>Python values shared by both source files\<close>

text \<open>
  Exceptions are values. The constructors are the Python exception classes the two
  source files can raise, directly or through an operation of the language
  (\<^verbatim>\<open>range\<close> with step 0, \<^verbatim>\<open>//\<close> by 0, a missing dictionary key, an index
  outside an array, a keyword given twice in a call).
\<close>

datatype error =
    ValueError string
  | KeyError string
  | TypeError string
  | ZeroDivisionError
  | IndexError

text \<open>
  A list comprehension whose body may raise: the elements are computed left to right and
  the first exception ends the comprehension.
\<close>

fun comprehension :: "('a \<Rightarrow> error + 'b) \<Rightarrow> 'a list \<Rightarrow> error + 'b list" where
  "comprehension f [] = Inr []"
| "comprehension f (x # xs) =
     (case f x of
        Inl e \<Rightarrow> Inl e
      | Inr y \<Rightarrow> (case comprehension f xs of Inl e \<Rightarrow> Inl e | Inr ys \<Rightarrow> Inr (y # ys)))"

section \<open>BatchSampler (scvi/core/data\_loaders/scvi\_data\_loader.py)\<close>

subsection \<open>The operations of Python, numpy and torch that \<open>__iter__\<close> uses\<close>

text \<open>
  \<^verbatim>\<open>range(start, stop, step)\<close> as the list of its values. Step 0 raises ValueError; a
  positive step counts up while below \<open>stop\<close>, a negative one counts down while above.
\<close>

function range_from :: "int \<Rightarrow> int \<Rightarrow> int \<Rightarrow> int list" where
  "range_from i stop step =
     (if 0 < step \<and> i < stop then i # range_from (i + step) stop step
      else if step < 0 \<and> stop < i then i # range_from (i + step) stop step
      else [])"
  by pat_completeness auto
termination
  by (relation "measure (\<lambda>(i, stop, step). nat (if 0 < step then stop - i else i - stop))") auto

declare range_from.simps [simp del]

definition py_range :: "int \<Rightarrow> int \<Rightarrow> int \<Rightarrow> error + int list" where
  "py_range start stop step =
     (if step = 0 then Inl (ValueError ''range() arg 3 must not be zero'')
      else Inr (range_from start stop step))"

text \<open>
  The slice \<^verbatim>\<open>xs[i:j]\<close> of a Python list: a negative bound counts from the end, and
  both bounds are clamped to the list.
\<close>

definition slice_bound :: "int \<Rightarrow> int \<Rightarrow> int" where
  "slice_bound n i = (if i < 0 then max 0 (n + i) else min i n)"

definition py_slice :: "'a list \<Rightarrow> int \<Rightarrow> int \<Rightarrow> 'a list" where
  "py_slice xs i j =
     (let n = int (length xs); a = slice_bound n i; b = slice_bound n j
      in take (nat (b - a)) (drop (nat a) xs))"

text \<open>
  \<^verbatim>\<open>arr[js]\<close>, a one-dimensional numpy array indexed by a list of integers: the array
  of the elements at those positions, a negative position counting from the end, and
  IndexError when a position is outside the array.
\<close>

definition np_getitem :: "'a list \<Rightarrow> int list \<Rightarrow> error + 'a list" where
  "np_getitem arr js =
     (let n = int (length arr)
      in if list_all (\<lambda>j. - n \<le> j \<and> j < n) js
         then Inr (map (\<lambda>j. arr ! nat (if j < 0 then j + n else j)) js)
         else Inl IndexError)"

text \<open>\<^verbatim>\<open>torch.arange(n).tolist()\<close>: the positions \<open>0, ..., n - 1\<close>.\<close>

definition torch_arange :: "nat \<Rightarrow> int list" where
  "torch_arange n = map int [0..<n]"

text \<open>
  \<^verbatim>\<open>torch.randperm(n).tolist()\<close> draws from the random source. The draw is an argument
  of the model; what torch guarantees of it is that it is a permutation of the positions
  \<open>0, ..., n - 1\<close>.
\<close>

definition is_randperm :: "nat \<Rightarrow> int list \<Rightarrow> bool" where
  "is_randperm n p \<longleftrightarrow> mset p = mset (torch_arange n)"

subsection \<open>The class\<close>

record batch_sampler =
  indices :: "int list"
  batch_size :: int
  shuffle :: bool

definition BatchSampler :: "int list \<Rightarrow> int \<Rightarrow> bool \<Rightarrow> batch_sampler" where
  "BatchSampler inds b sh = \<lparr>indices = inds, batch_size = b, shuffle = sh\<rparr>"

text \<open>
  \<open>__iter__\<close>. The second argument is the outcome of \<^verbatim>\<open>torch.randperm\<close>, read only
  when the sampler shuffles. The result is the list the iterator is made from.
\<close>

definition iterate :: "batch_sampler \<Rightarrow> int list \<Rightarrow> error + int list list" where
  "iterate s randperm =
     (let idx = (if shuffle s then randperm else torch_arange (length (indices s)))
      in case py_range 0 (int (length idx)) (batch_size s) of
           Inl e \<Rightarrow> Inl e
         | Inr starts \<Rightarrow>
             comprehension (\<lambda>i. np_getitem (indices s) (py_slice idx i (i + batch_size s))) starts)"

text \<open>
  The method \<open>__len__\<close>: Python's floor division, which raises on a zero divisor and
  rounds towards minus infinity, as \<open>div\<close> on \<open>int\<close> does.
\<close>

definition len :: "batch_sampler \<Rightarrow> error + int" where
  "len s =
     (if batch_size s = 0 then Inl ZeroDivisionError
      else Inr (int (length (indices s)) div batch_size s))"

text \<open>The local variable \<open>idx\<close> of \<open>__iter__\<close>: the positions in the order they are read.\<close>

definition positions :: "batch_sampler \<Rightarrow> int list \<Rightarrow> int list" where
  "positions s rp = (if shuffle s then rp else torch_arange (length (indices s)))"

subsection \<open>A sampler to run\<close>

definition example_sampler :: batch_sampler where
  "example_sampler = BatchSampler [10, 11, 12, 13, 14] 2 True"

definition example_randperm :: "int list" where
  "example_randperm = [3, 0, 4, 1, 2]"

section \<open>ScviDataLoader (scvi/core/data\_loaders/scvi\_data\_loader.py)\<close>

subsection \<open>The data container, the field names and the dataset view\<close>

datatype dtype = float32 | int64

text \<open>
  A FieldSpec (\<open>data_and_attributes\<close>) is a dictionary from field name to dtype. The
  constructor walks its keys in insertion order and stops at the first one that is not
  registered, so the dictionary is the list of its items in that order.
\<close>

type_synonym field_spec = "(string \<times> dtype) list"

text \<open>
  The container: \<open>adata.uns\<close> is a dictionary; its entry \<^verbatim>\<open>"_scvi"\<close> is the dictionary
  written by \<^verbatim>\<open>setup_anndata\<close>, whose entry \<^verbatim>\<open>"data_registry"\<close> is the DataRegistry.
  The constructor reads only the keys of the registry; its values are the dtypes of
  section 3 of the specification. \<open>n_obs\<close> is the number of rows.
\<close>

type_synonym data_registry = "string \<rightharpoonup> dtype"

record anndata =
  uns :: "string \<rightharpoonup> (string \<rightharpoonup> data_registry)"
  n_obs :: nat

text \<open>
  Modelled from the spec: the constants \<open>X_KEY\<close>, \<open>BATCH_KEY\<close>, \<open>LOCAL_L_MEAN_KEY\<close>,
  \<open>LOCAL_L_VAR_KEY\<close> and \<open>LABELS_KEY\<close> of \<^verbatim>\<open>scvi._CONSTANTS\<close>, which is not among the
  source files. Section 6 of the specification gives the recognized default field
  names: X, batch, local\_l\_mean, local\_l\_var, labels.
\<close>

definition X_KEY :: string where "X_KEY = ''X''"
definition BATCH_KEY :: string where "BATCH_KEY = ''batch''"
definition LOCAL_L_MEAN_KEY :: string where "LOCAL_L_MEAN_KEY = ''local_l_mean''"
definition LOCAL_L_VAR_KEY :: string where "LOCAL_L_VAR_KEY = ''local_l_var''"
definition LABELS_KEY :: string where "LABELS_KEY = ''labels''"

text \<open>
  Modelled from the spec: the class \<open>ScviDataset\<close> of \<^verbatim>\<open>scvi.data._scvidataset\<close>, which
  is not among the source files. Sections 3 and 4.2 of the specification describe it as
  a read-only view over the container that selects and casts the fields of the FieldSpec
  it is given; section 6 makes the container a row-indexable collection, so the length
  of the view is the number of rows. The view records the container and the
  \<open>getitem_tensors\<close> argument it was constructed with.
\<close>

record scvi_dataset =
  ds_adata :: anndata
  getitem_tensors :: "field_spec option"

definition ScviDataset :: "anndata \<Rightarrow> field_spec option \<Rightarrow> scvi_dataset" where
  "ScviDataset adata tensors = \<lparr>ds_adata = adata, getitem_tensors = tensors\<rparr>"

definition dataset_len :: "scvi_dataset \<Rightarrow> nat" where
  "dataset_len ds = n_obs (ds_adata ds)"

subsection \<open>The index argument\<close>

text \<open>
  The argument \<open>indices\<close> is \<open>None\<close>, a numpy array of dtype bool (a mask), or a list or
  array of positions.
\<close>

datatype indices_arg = BoolMask "bool list" | Positions "int list"

text \<open>\<^verbatim>\<open>np.where(mask)[0].ravel()\<close>: the positions at which the mask is true, ascending.\<close>

definition np_where :: "bool list \<Rightarrow> int list" where
  "np_where msk = map int (filter (\<lambda>i. msk ! i) [0..<length msk])"

definition np_arange :: "nat \<Rightarrow> int list" where
  "np_arange n = map int [0..<n]"

subsection \<open>Keyword dictionaries in the store\<close>

text \<open>
  \<open>data_loader_kwargs\<close> is a dictionary object that the caller keeps a reference to, so
  dictionaries live in a store and are passed by reference: a store is the list of its
  objects and a reference is a position in it. \<^verbatim>\<open>copy.copy\<close> allocates a new object
  with the same items; \<^verbatim>\<open>update\<close> writes the object it is called on.
\<close>

datatype kwarg = Sampler batch_sampler | PyNone | PyInt int | PyBool bool | PyStr string

type_synonym kwargs = "string \<rightharpoonup> kwarg"

type_synonym store = "kwargs list"

definition copy_copy :: "store \<Rightarrow> nat \<Rightarrow> store \<times> nat" where
  "copy_copy h r = (h @ [h ! r], length h)"

definition dict_update :: "store \<Rightarrow> nat \<Rightarrow> (string \<times> kwarg) list \<Rightarrow> store" where
  "dict_update h r items = h[r := foldl (\<lambda>d (k, v). d(k \<mapsto> v)) (h ! r) items]"

subsection \<open>The constructor\<close>

record scvi_data_loader =
  data_and_attributes :: field_spec
  dataset :: scvi_dataset
  to_monitor :: "string list"
  use_cuda :: bool
  loader_indices :: "int list option"
  sampler_kwargs :: batch_sampler
  data_loader_kwargs :: nat
  DataLoader_dataset :: scvi_dataset
  DataLoader_kwargs :: kwargs

text \<open>
  The fields are the attributes \<open>__init__\<close> assigns (\<open>data_and_attributes\<close> is
  \<open>self._data_and_attributes\<close>, \<open>loader_indices\<close> is \<open>self.indices\<close>, \<open>data_loader_kwargs\<close>
  is the reference to the loader's own dictionary); \<open>DataLoader_dataset\<close> and
  \<open>DataLoader_kwargs\<close> are the arguments with which the constructor of torch's
  \<open>DataLoader\<close> is called on the last line, the keyword arguments being the items of
  the loader's dictionary at that moment. What torch does with them is outside the
  source files.
\<close>

definition default_data_and_attributes :: field_spec where
  "default_data_and_attributes =
     [(X_KEY, float32), (BATCH_KEY, int64), (LOCAL_L_MEAN_KEY, float32),
      (LOCAL_L_VAR_KEY, float32), (LABELS_KEY, int64)]"

text \<open>
  The loop over the keys of the resolved FieldSpec. Each round subscripts
  \<^verbatim>\<open>adata.uns["_scvi"]["data_registry"]\<close>, which raises KeyError when an entry is
  missing, and raises ValueError for a key that is not registered.
\<close>

fun check_registered :: "(string \<rightharpoonup> (string \<rightharpoonup> data_registry)) \<Rightarrow> string list \<Rightarrow> error + unit" where
  "check_registered u [] = Inr ()"
| "check_registered u (key # keys) =
     (case u ''_scvi'' of
        None \<Rightarrow> Inl (KeyError ''_scvi'')
      | Some scvi \<Rightarrow>
          (case scvi ''data_registry'' of
             None \<Rightarrow> Inl (KeyError ''data_registry'')
           | Some registry \<Rightarrow>
               if registry key = None
               then Inl (ValueError (key @ '' required for model but not included when setup_anndata was run''))
               else check_registered u keys))"

text \<open>
  The index-selection policy (the \<open>if indices is None\<close> statement): the new value of the
  local variable \<open>indices\<close> and the keyword arguments of the sampler.
\<close>

definition select_indices ::
  "scvi_dataset \<Rightarrow> bool \<Rightarrow> indices_arg option \<Rightarrow> int \<Rightarrow> int list option \<times> batch_sampler" where
  "select_indices ds shuffle_arg indices_arg batch_size_arg =
     (case indices_arg of
        None \<Rightarrow>
          (let inds = np_arange (dataset_len ds)
           in if shuffle_arg
              then (None, \<lparr>indices = inds, batch_size = batch_size_arg, shuffle = True\<rparr>)
              else (None, \<lparr>indices = inds, batch_size = batch_size_arg, shuffle = False\<rparr>))
      | Some given \<Rightarrow>
          (let inds = (case given of BoolMask msk \<Rightarrow> np_where msk | Positions ps \<Rightarrow> ps)
           in (Some inds, \<lparr>indices = inds, batch_size = batch_size_arg, shuffle = True\<rparr>)))"

text \<open>
  \<open>__init__\<close>, with the store before and after. The arguments are those of the source,
  in its order: \<open>adata\<close>, \<open>shuffle\<close>, \<open>indices\<close>, \<open>use_cuda\<close>, \<open>batch_size\<close>, the reference
  \<open>data_loader_kwargs\<close> and \<open>data_and_attributes\<close>.
\<close>

definition ScviDataLoader_init ::
  "store \<Rightarrow> anndata \<Rightarrow> bool \<Rightarrow> indices_arg option \<Rightarrow> bool \<Rightarrow> int \<Rightarrow> nat \<Rightarrow> field_spec option
     \<Rightarrow> error + (scvi_data_loader \<times> store)" where
  "ScviDataLoader_init h adata shuffle_arg indices_arg use_cuda_arg batch_size_arg kwargs_ref daa =
     (if uns adata ''_scvi'' = None
      then Inl (ValueError ''Please run setup_anndata() on your anndata object first.'')
      else
        let self_daa = (case daa of None \<Rightarrow> default_data_and_attributes | Some d \<Rightarrow> d)
        in case check_registered (uns adata) (map fst self_daa) of
             Inl e \<Rightarrow> Inl e
           | Inr _ \<Rightarrow>
               let ds = ScviDataset adata daa;
                   sel = select_indices ds shuffle_arg indices_arg batch_size_arg;
                   sampler = BatchSampler (indices (snd sel)) (batch_size (snd sel)) (shuffle (snd sel));
                   cp = copy_copy h kwargs_ref;
                   h' = dict_update (fst cp) (snd cp) [(''sampler'', Sampler sampler), (''batch_size'', PyNone)]
               in Inr (\<lparr>data_and_attributes = self_daa, dataset = ds, to_monitor = [],
                        use_cuda = use_cuda_arg, loader_indices = fst sel, sampler_kwargs = snd sel,
                        data_loader_kwargs = snd cp, DataLoader_dataset = ds,
                        DataLoader_kwargs = h' ! snd cp\<rparr>, h'))"




text \<open>The keys of the resolved FieldSpec, in the order the constructor checks them.\<close>

definition resolved_keys :: "field_spec option \<Rightarrow> string list" where
  "resolved_keys daa = map fst (case daa of None \<Rightarrow> default_data_and_attributes | Some d \<Rightarrow> d)"

subsection \<open>Containers and a store to run the constructor on\<close>

text \<open>
  A container set up with the five default fields and one more, a container that was
  never set up, a container whose \<^verbatim>\<open>"_scvi"\<close> entry is an empty dictionary, and a store
  in which the caller's dictionary (reference 0) asks for two workers and a batch size
  of 64.
\<close>

definition example_registry :: data_registry where
  "example_registry =
     [''X'' \<mapsto> float32, ''batch'' \<mapsto> int64, ''local_l_mean'' \<mapsto> float32,
      ''local_l_var'' \<mapsto> float32, ''labels'' \<mapsto> int64, ''protein_expression'' \<mapsto> float32]"

definition example_adata :: anndata where
  "example_adata = \<lparr>uns = [''_scvi'' \<mapsto> [''data_registry'' \<mapsto> example_registry]], n_obs = 4\<rparr>"



definition example_store :: store where
  "example_store = [[''num_workers'' \<mapsto> PyInt 2, ''batch_size'' \<mapsto> PyInt 64]]"

section \<open>SCVILoss (scvi/compose/\_base\_module.py)\<close>

text \<open>
  Each argument of the constructor is either a dictionary of named terms or a bare value
  (\<open>isinstance(x, dict)\<close> decides). A dictionary is the list of its items in insertion
  order, the order in which \<open>values()\<close> is read. The terms are Python numbers or tensors;
  the model takes any type with an addition and a zero and adds exactly.
\<close>

datatype 'a loss_arg = Bare 'a | Named "(string \<times> 'a) list"

text \<open>
  The attributes \<open>_loss\<close>, \<open>_reconstruction_loss\<close>, \<open>_kl_local\<close> and \<open>_kl_global\<close>.
\<close>

record 'a scvi_loss =
  loss_dict :: "(string \<times> 'a) list"
  reconstruction_loss_dict :: "(string \<times> 'a) list"
  kl_local_dict :: "(string \<times> 'a) list"
  kl_global_dict :: "(string \<times> 'a) list"

definition SCVILoss :: "'a loss_arg \<Rightarrow> 'a loss_arg \<Rightarrow> 'a loss_arg \<Rightarrow> 'a loss_arg \<Rightarrow> 'a scvi_loss" where
  "SCVILoss loss_arg reconstruction_loss_arg kl_local_arg kl_global_arg =
     \<lparr>loss_dict = (case loss_arg of Named d \<Rightarrow> d | Bare x \<Rightarrow> [(''loss'', x)]),
      reconstruction_loss_dict =
        (case reconstruction_loss_arg of Named d \<Rightarrow> d | Bare x \<Rightarrow> [(''reconstruction_loss'', x)]),
      kl_local_dict = (case kl_local_arg of Named d \<Rightarrow> d | Bare x \<Rightarrow> [(''kl_local'', x)]),
      kl_global_dict = (case kl_global_arg of Named d \<Rightarrow> d | Bare x \<Rightarrow> [(''kl_global'', x)])\<rparr>"

text \<open>\<open>_get_dict_sum\<close>: the loop adds the values to \<open>0.0\<close> one after the other.\<close>

definition get_dict_sum :: "(string \<times> 'a::monoid_add) list \<Rightarrow> 'a" where
  "get_dict_sum dictionary = foldl (\<lambda>sum value. sum + value) 0 (map snd dictionary)"

text \<open>The properties; \<open>elbo\<close> returns \<open>None\<close>.\<close>

definition loss :: "'a::monoid_add scvi_loss \<Rightarrow> 'a" where
  "loss self = get_dict_sum (loss_dict self)"

definition reconstruction_loss :: "'a::monoid_add scvi_loss \<Rightarrow> 'a" where
  "reconstruction_loss self = get_dict_sum (reconstruction_loss_dict self)"

definition kl_local :: "'a::monoid_add scvi_loss \<Rightarrow> 'a" where
  "kl_local self = get_dict_sum (kl_local_dict self)"

definition kl_global :: "'a::monoid_add scvi_loss \<Rightarrow> 'a" where
  "kl_global self = get_dict_sum (kl_global_dict self)"

definition elbo :: "'a scvi_loss \<Rightarrow> 'a option" where
  "elbo self = None"

section \<open>AbstractVAE (scvi/compose/\_base\_module.py)\<close>

subsection \<open>Keyword arguments\<close>

text \<open>
  A keyword dictionary is the list of its items. A value passed for one of the five
  override parameters of \<open>forward\<close> is \<open>None\<close>, a dictionary, or some other Python value
  (a list, a number).
\<close>

type_synonym 'v kwdict = "(string \<times> 'v) list"

datatype 'v param = ParamNone | ParamDict "'v kwdict" | ParamOther 'v

definition get_dict_if_none :: "'v param \<Rightarrow> 'v kwdict" where
  "get_dict_if_none param = (case param of ParamDict d \<Rightarrow> d | _ \<Rightarrow> [])"

text \<open>\<open>isinstance(param, dict)\<close>.\<close>

definition is_dict :: "'v param \<Rightarrow> bool" where
  "is_dict param = (case param of ParamDict d \<Rightarrow> True | _ \<Rightarrow> False)"

subsection \<open>Calls that may raise and may change the state of the module\<close>

text \<open>
  The hooks are code of the concrete model: a call takes the state (of the module and of
  everything else the hook can reach) and either raises, or returns a value and the state
  it leaves behind. \<open>and_then\<close> runs one call after another; an exception of the first
  ends the sequence.
\<close>

type_synonym ('a, 's) call = "'s \<Rightarrow> error + ('a \<times> 's)"

definition and_then :: "('a, 's) call \<Rightarrow> ('a \<Rightarrow> ('b, 's) call) \<Rightarrow> ('b, 's) call" where
  "and_then m f = (\<lambda>s. case m s of Inl e \<Rightarrow> Inl e | Inr (x, s') \<Rightarrow> f x s')"

definition returns :: "'a \<Rightarrow> ('a, 's) call" where
  "returns x = (\<lambda>s. Inr (x, s))"

definition raise_or_return :: "error + 'a \<Rightarrow> ('a, 's) call" where
  "raise_or_return r = (\<lambda>s. case r of Inl e \<Rightarrow> Inl e | Inr x \<Rightarrow> Inr (x, s))"

text \<open>
  The call \<^verbatim>\<open>f(**a, **b)\<close>: the two dictionaries are joined into the keyword arguments
  of one call, and a key that is in both raises TypeError before \<open>f\<close> is entered.
\<close>

definition merge_kwargs :: "'v kwdict \<Rightarrow> 'v kwdict \<Rightarrow> error + 'v kwdict" where
  "merge_kwargs a b =
     (case filter (\<lambda>k. k \<in> set (map fst a)) (map fst b) of
        [] \<Rightarrow> Inr (a @ b)
      | k # _ \<Rightarrow> Inl (TypeError (''got multiple values for keyword argument '' @ k)))"

subsection \<open>The class\<close>

text \<open>
  A module is its five abstract methods (\<open>loss_hook\<close> is the method \<open>loss\<close>; \<open>sample\<close> is not
  called by \<open>forward\<close>). The type parameters are the tensors of a batch, the values of
  keyword arguments, the outputs of inference and of the generative step, the losses, and
  the state.
\<close>

record ('t, 'v, 'i, 'g, 'l, 's) abstract_vae =
  get_inference_input :: "'t \<Rightarrow> 'v kwdict \<Rightarrow> ('v kwdict, 's) call"
  get_generative_input :: "'t \<Rightarrow> 'i \<Rightarrow> 'v kwdict \<Rightarrow> ('v kwdict, 's) call"
  inference :: "'v kwdict \<Rightarrow> ('i, 's) call"
  generative :: "'v kwdict \<Rightarrow> ('g, 's) call"
  loss_hook :: "'t \<Rightarrow> 'i \<Rightarrow> 'g \<Rightarrow> 'v kwdict \<Rightarrow> ('l, 's) call"

text \<open>What \<open>forward\<close> returns: a tuple of two or of three.\<close>

datatype ('i, 'g, 'l) forward_result = Two_tuple 'i 'g | Three_tuple 'i 'g 'l

text \<open>
  The body of \<open>forward\<close>, with its parameters in the order of the source. The decorator
  \<open>auto_move_data\<close> (not among the source files) moves the tensors to the device of the
  module before the body runs and does not change their values; it is not modelled.
\<close>

definition forward ::
  "('t, 'v, 'i, 'g, 'l, 's) abstract_vae \<Rightarrow> 't \<Rightarrow> 'v param \<Rightarrow> 'v param \<Rightarrow> 'v param \<Rightarrow> 'v param
     \<Rightarrow> 'v param \<Rightarrow> bool \<Rightarrow> (('i, 'g, 'l) forward_result, 's) call" where
  "forward self tensors get_inference_input_kwargs get_generative_input_kwargs inference_kwargs
      generative_kwargs loss_kwargs compute_loss =
     (let inference_kw = get_dict_if_none inference_kwargs;
          generative_kw = get_dict_if_none generative_kwargs;
          loss_kw = get_dict_if_none loss_kwargs;
          get_inference_input_kw = get_dict_if_none get_inference_input_kwargs;
          get_generative_input_kw = get_dict_if_none get_generative_input_kwargs
      in
      and_then (get_inference_input self tensors get_inference_input_kw) (\<lambda>inference_inputs.
      and_then (raise_or_return (merge_kwargs inference_inputs inference_kw)) (\<lambda>inference_args.
      and_then (inference self inference_args) (\<lambda>inference_outputs.
      and_then (get_generative_input self tensors inference_outputs get_generative_input_kw)
        (\<lambda>generative_inputs.
      and_then (raise_or_return (merge_kwargs generative_inputs generative_kw)) (\<lambda>generative_args.
      and_then (generative self generative_args) (\<lambda>generative_outputs.
      if compute_loss
      then and_then (loss_hook self tensors inference_outputs generative_outputs loss_kw)
             (\<lambda>losses. returns (Three_tuple inference_outputs generative_outputs losses))
      else returns (Two_tuple inference_outputs generative_outputs))))))))"

subsection \<open>A module that records its calls\<close>

text \<open>
  To observe which hooks \<open>forward\<close> calls and in which order, \<open>instrument\<close> gives every hook
  of a module a second state component, the list of the names of the hooks that have
  returned so far.
\<close>

definition logged :: "string \<Rightarrow> ('a, 's) call \<Rightarrow> ('a, 's \<times> string list) call" where
  "logged name c =
     (\<lambda>(s, tr). case c s of Inl e \<Rightarrow> Inl e | Inr (x, s') \<Rightarrow> Inr (x, (s', tr @ [name])))"

definition instrument ::
  "('t, 'v, 'i, 'g, 'l, 's) abstract_vae \<Rightarrow> ('t, 'v, 'i, 'g, 'l, 's \<times> string list) abstract_vae" where
  "instrument m =
     \<lparr>get_inference_input = (\<lambda>t kw. logged ''_get_inference_input'' (get_inference_input m t kw)),
      get_generative_input = (\<lambda>t i kw. logged ''_get_generative_input'' (get_generative_input m t i kw)),
      inference = (\<lambda>kw. logged ''inference'' (inference m kw)),
      generative = (\<lambda>kw. logged ''generative'' (generative m kw)),
      loss_hook = (\<lambda>t i g kw. logged ''loss'' (loss_hook m t i g kw))\<rparr>"

subsection \<open>A module to run\<close>

text \<open>
  A small concrete model over integers whose state counts the calls made: inference adds
  the keyword \<open>offset\<close> (default 0) to the input, the generative step doubles. The second
  definition is a loss method that raises whenever it is called.
\<close>

definition example_vae :: "(int, int, int, int, int scvi_loss, nat) abstract_vae" where
  "example_vae =
     \<lparr>get_inference_input = (\<lambda>t kw s. Inr ([(''x'', t)], Suc s)),
      get_generative_input = (\<lambda>t i kw s. Inr ([(''z'', i)], Suc s)),
      inference = (\<lambda>kw s. case map_of kw ''x'' of
                      None \<Rightarrow> Inl (TypeError ''inference() missing argument x'')
                    | Some x \<Rightarrow> Inr (x + (case map_of kw ''offset'' of None \<Rightarrow> 0 | Some v \<Rightarrow> v), Suc s)),
      generative = (\<lambda>kw s. case map_of kw ''z'' of
                      None \<Rightarrow> Inl (TypeError ''generative() missing argument z'')
                    | Some z \<Rightarrow> Inr (2 * z, Suc s)),
      loss_hook = (\<lambda>t i g kw s. Inr (SCVILoss (Bare (g - t)) (Bare (g - t)) (Bare 0) (Bare 0), Suc s))\<rparr>"

definition failing_loss :: "'t \<Rightarrow> 'i \<Rightarrow> 'g \<Rightarrow> 'v kwdict \<Rightarrow> ('l, 's) call" where
  "failing_loss t i g kw = (\<lambda>s. Inl (ValueError ''loss() was called''))"

section \<open>Properties of BatchSampler\<close>

lemma range_from_pos:
  "0 < step \<Longrightarrow>
     range_from i stop step = (if i < stop then i # range_from (i + step) stop step else [])"
  by (subst range_from.simps) simp

lemma length_range_from:
  "0 < step \<Longrightarrow> int (length (range_from i stop step)) = max 0 (- ((i - stop) div step))"
proof (induction i stop step rule: range_from.induct)
  case (1 i stop step)
  show ?case
  proof (cases "i < stop")
    case True
    have "i + step - stop = (i - stop) + step"
      by simp
    then have shift: "(i + step - stop) div step = (i - stop) div step + 1"
      using "1.prems" by (simp only: div_add_self2)
    have neg: "(i - stop) div step < 0"
      using True "1.prems" by (simp add: pos_imp_zdiv_neg_iff)
    from "1.IH"(1) [OF conjI [OF "1.prems" True] "1.prems"]
    have "int (length (range_from (i + step) stop step)) = max 0 (- ((i + step - stop) div step))" .
    with shift neg show ?thesis
      using "1.prems" True by (subst range_from_pos) auto
  next
    case False
    then have "0 \<le> (i - stop) div step"
      using "1.prems" by (simp add: pos_imp_zdiv_nonneg_iff)
    with False "1.prems" show ?thesis
      by (subst range_from_pos) auto
  qed
qed

lemma py_slice_nonneg:
  "0 \<le> i \<Longrightarrow> i \<le> j \<Longrightarrow> py_slice xs i j = take (nat (j - i)) (drop (nat i) xs)"
  by (auto simp: py_slice_def slice_bound_def Let_def min_def)

lemma set_py_slice: "set (py_slice xs i j) \<subseteq> set xs"
proof -
  have "set (py_slice xs i j) \<subseteq> set (drop (nat (slice_bound (int (length xs)) i)) xs)"
    unfolding py_slice_def Let_def by (rule set_take_subset)
  also have "\<dots> \<subseteq> set xs"
    by (rule set_drop_subset)
  finally show ?thesis .
qed

lemma concat_slices:
  "0 < b \<Longrightarrow> 0 \<le> i \<Longrightarrow>
     concat (map (\<lambda>k. py_slice idx k (k + b)) (range_from i (int (length idx)) b))
       = drop (nat i) idx"
proof (induction i "int (length idx)" b rule: range_from.induct)
  case (1 i step)
  show ?case
  proof (cases "i < int (length idx)")
    case True
    have rest: "concat (map (\<lambda>k. py_slice idx k (k + step))
                  (range_from (i + step) (int (length idx)) step)) = drop (nat (i + step)) idx"
      using "1.hyps"(1) [OF conjI [OF "1.prems"(1) True]] "1.prems" by simp
    have "take (nat step) (drop (nat i) idx) @ drop (nat (i + step)) idx = drop (nat i) idx"
    proof -
      have "nat (i + step) = nat step + nat i"
        using "1.prems" by (simp add: nat_add_distrib)
      then have "drop (nat (i + step)) idx = drop (nat step) (drop (nat i) idx)"
        by (simp only: drop_drop)
      then show ?thesis
        by (simp only: append_take_drop_id)
    qed
    with rest True "1.prems" show ?thesis
      by (subst range_from_pos) (simp_all add: py_slice_nonneg)
  next
    case False
    with "1.prems" show ?thesis
      by (subst range_from_pos) simp_all
  qed
qed

lemma comprehension_total:
  "(\<And>x. x \<in> set xs \<Longrightarrow> f x = Inr (g x)) \<Longrightarrow> comprehension f xs = Inr (map g xs)"
  by (induction xs) simp_all

lemma np_getitem_positions:
  assumes "\<forall>j\<in>set js. 0 \<le> j \<and> j < int (length arr)"
  shows "np_getitem arr js = Inr (map (\<lambda>j. arr ! nat j) js)"
proof -
  have "list_all (\<lambda>j. - int (length arr) \<le> j \<and> j < int (length arr)) js"
    using assms by (auto simp: list_all_iff)
  moreover have "map (\<lambda>j. arr ! nat (if j < 0 then j + int (length arr) else j)) js
                   = map (\<lambda>j. arr ! nat j) js"
    using assms by (intro map_cong) auto
  ultimately show ?thesis
    by (simp add: np_getitem_def Let_def)
qed

lemma randperm_positions:
  assumes "mset idx = mset (torch_arange n)" and "j \<in> set idx"
  shows "0 \<le> j \<and> j < int n"
proof -
  from assms have "j \<in> set (torch_arange n)"
    by (metis set_mset_mset)
  then show ?thesis
    by (auto simp: torch_arange_def)
qed

lemma map_nth_arange: "map (\<lambda>j. arr ! nat j) (torch_arange (length arr)) = arr"
  by (simp add: torch_arange_def comp_def map_nth)

lemma positions_perm:
  assumes "shuffle s \<longrightarrow> is_randperm (length (indices s)) rp"
  shows "mset (positions s rp) = mset (torch_arange (length (indices s)))"
  using assms by (simp add: positions_def is_randperm_def)

lemma length_positions:
  assumes "shuffle s \<longrightarrow> is_randperm (length (indices s)) rp"
  shows "length (positions s rp) = length (indices s)"
proof -
  have "size (mset (positions s rp)) = size (mset (torch_arange (length (indices s))))"
    using positions_perm [OF assms] by simp
  then show ?thesis
    by (simp add: torch_arange_def)
qed

lemma iterate_value:
  assumes b: "1 \<le> batch_size s"
    and rp: "shuffle s \<longrightarrow> is_randperm (length (indices s)) rp"
  shows "iterate s rp =
           Inr (map (\<lambda>i. map (\<lambda>j. indices s ! nat j)
                         (py_slice (positions s rp) i (i + batch_size s)))
                  (range_from 0 (int (length (indices s))) (batch_size s)))"
proof -
  let ?idx = "positions s rp"
  have inside: "np_getitem (indices s) (py_slice ?idx i (i + batch_size s))
                  = Inr (map (\<lambda>j. indices s ! nat j) (py_slice ?idx i (i + batch_size s)))" for i
  proof (rule np_getitem_positions, rule ballI)
    fix j assume "j \<in> set (py_slice ?idx i (i + batch_size s))"
    then have "j \<in> set ?idx"
      by (rule subsetD [OF set_py_slice])
    then show "0 \<le> j \<and> j < int (length (indices s))"
      using randperm_positions [OF positions_perm [OF rp]] by blast
  qed
  have "comprehension (\<lambda>i. np_getitem (indices s) (py_slice ?idx i (i + batch_size s))) starts
          = Inr (map (\<lambda>i. map (\<lambda>j. indices s ! nat j) (py_slice ?idx i (i + batch_size s))) starts)"
    for starts
    by (rule comprehension_total) (rule inside)
  then show ?thesis
    using b length_positions [OF rp]
    by (simp add: iterate_def py_range_def positions_def Let_def)
qed

lemma concat_iterate:
  assumes b: "1 \<le> batch_size s"
    and rp: "shuffle s \<longrightarrow> is_randperm (length (indices s)) rp"
  shows "concat (map (\<lambda>i. map (\<lambda>j. indices s ! nat j)
                         (py_slice (positions s rp) i (i + batch_size s)))
                  (range_from 0 (int (length (indices s))) (batch_size s)))
           = map (\<lambda>j. indices s ! nat j) (positions s rp)"
proof -
  have "concat (map (\<lambda>k. py_slice (positions s rp) k (k + batch_size s))
          (range_from 0 (int (length (positions s rp))) (batch_size s))) = drop (nat 0) (positions s rp)"
    using b by (intro concat_slices) simp_all
  then have "concat (map (\<lambda>k. py_slice (positions s rp) k (k + batch_size s))
          (range_from 0 (int (length (indices s))) (batch_size s))) = positions s rp"
    by (simp add: length_positions [OF rp])
  then have "map (\<lambda>j. indices s ! nat j) (concat (map (\<lambda>k. py_slice (positions s rp) k (k + batch_size s))
          (range_from 0 (int (length (indices s))) (batch_size s)))) = map (\<lambda>j. indices s ! nat j) (positions s rp)"
    by simp
  then show ?thesis
    by (simp add: map_concat comp_def)
qed

lemma mset_gather:
  assumes "mset idx = mset (torch_arange (length arr))"
  shows "mset (map (\<lambda>j. arr ! nat j) idx) = mset arr"
proof -
  have "mset (map (\<lambda>j. arr ! nat j) idx) = image_mset (\<lambda>j. arr ! nat j) (mset idx)"
    by simp
  also have "\<dots> = mset (map (\<lambda>j. arr ! nat j) (torch_arange (length arr)))"
    by (simp add: assms)
  also have "\<dots> = mset arr"
    by (simp only: map_nth_arange)
  finally show ?thesis .
qed

lemma ceiling_batches:
  assumes "1 \<le> b"
  shows "max 0 (- ((0 - int n) div b)) = \<lceil>real n / real_of_int b\<rceil>"
proof -
  have "\<lceil>real n / real_of_int b\<rceil> = \<lceil>real_of_int (int n) / real_of_int b\<rceil>"
    by simp
  also have "\<dots> = - ((- int n) div b)"
    by (rule ceiling_divide_eq_div)
  finally have c: "\<lceil>real n / real_of_int b\<rceil> = - ((- int n) div b)" .
  have "(- int n) div b \<le> 0"
    using assms by (intro div_nonpos_pos_le0) simp_all
  with c show ?thesis by simp
qed

text \<open>
  Claim C1. A BatchSampler over \<open>n \<ge> 0\<close> indices with batch size \<open>b \<ge> 1\<close>: \<open>__iter__\<close>
  returns (raises nothing), and it yields \<open>\<lceil>n / b\<rceil>\<close> batches whose sizes sum to \<open>n\<close> and
  which together hold every index exactly once (the batches concatenated are a
  permutation of the index array); without shuffling they hold the indices in their
  original order; and for \<open>n = 0\<close> the sequence of batches is empty. With shuffling this
  holds for every permutation \<^verbatim>\<open>torch.randperm\<close> may draw.
\<close>

theorem iterate_partitions_indices:
  assumes b: "1 \<le> batch_size s"
    and rp: "shuffle s \<longrightarrow> is_randperm (length (indices s)) rp"
  shows "\<exists>bs. iterate s rp = Inr bs
           \<and> int (length bs) = \<lceil>real (length (indices s)) / real_of_int (batch_size s)\<rceil>
           \<and> sum_list (map length bs) = length (indices s)
           \<and> mset (concat bs) = mset (indices s)
           \<and> (\<not> shuffle s \<longrightarrow> concat bs = indices s)
           \<and> (indices s = [] \<longrightarrow> bs = [])"
proof -
  define bs where "bs = map (\<lambda>i. map (\<lambda>j. indices s ! nat j)
                         (py_slice (positions s rp) i (i + batch_size s)))
                  (range_from 0 (int (length (indices s))) (batch_size s))"
  have val: "iterate s rp = Inr bs"
    unfolding bs_def by (rule iterate_value [OF b rp])
  have cat: "concat bs = map (\<lambda>j. indices s ! nat j) (positions s rp)"
    unfolding bs_def by (rule concat_iterate [OF b rp])
  have count: "int (length bs) = \<lceil>real (length (indices s)) / real_of_int (batch_size s)\<rceil>"
    using b length_range_from [of "batch_size s" 0 "int (length (indices s))"]
      ceiling_batches [OF b, of "length (indices s)"]
    by (simp add: bs_def)
  have "sum_list (map length bs) = length (concat bs)"
    by (simp add: length_concat)
  then have total: "sum_list (map length bs) = length (indices s)"
    by (simp add: cat length_positions [OF rp])
  have cover: "mset (concat bs) = mset (indices s)"
    unfolding cat by (rule mset_gather [OF positions_perm [OF rp]])
  have order: "\<not> shuffle s \<longrightarrow> concat bs = indices s"
    by (simp add: cat positions_def map_nth_arange)
  have empty: "indices s = [] \<longrightarrow> bs = []"
    using b by (simp add: bs_def range_from_pos)
  from val count total cover order empty show ?thesis
    by blast
qed

lemma length_iterate:
  assumes b: "1 \<le> batch_size s"
    and rp: "shuffle s \<longrightarrow> is_randperm (length (indices s)) rp"
  shows "\<exists>bs. iterate s rp = Inr bs
           \<and> int (length bs) = - ((- int (length (indices s))) div batch_size s)"
proof -
  have "(- int (length (indices s))) div batch_size s \<le> 0"
    using b by (intro div_nonpos_pos_le0) simp_all
  then show ?thesis
    using b length_range_from [of "batch_size s" 0 "int (length (indices s))"]
    by (simp add: iterate_value [OF b rp])
qed

text \<open>
  Claim C2. For a BatchSampler over \<open>n\<close> indices with batch size \<open>b \<ge> 1\<close>, \<open>__len__\<close>
  returns \<open>\<lfloor>n / b\<rfloor>\<close>; this is strictly less than the number of batches \<open>__iter__\<close>
  yields exactly when \<open>n mod b \<noteq> 0\<close>, and equal to it when \<open>n mod b = 0\<close>.
\<close>

theorem len_undercounts_iterate:
  assumes b: "1 \<le> batch_size s"
    and rp: "shuffle s \<longrightarrow> is_randperm (length (indices s)) rp"
  shows "\<exists>k bs. len s = Inr k \<and> iterate s rp = Inr bs
           \<and> k = \<lfloor>real (length (indices s)) / real_of_int (batch_size s)\<rfloor>
           \<and> (k < int (length bs) \<longleftrightarrow> int (length (indices s)) mod batch_size s \<noteq> 0)
           \<and> (int (length (indices s)) mod batch_size s = 0 \<longrightarrow> k = int (length bs))"
proof -
  let ?n = "int (length (indices s))"
  obtain bs where bs: "iterate s rp = Inr bs" "int (length bs) = - ((- ?n) div batch_size s)"
    using length_iterate [OF b rp] by blast
  have k: "len s = Inr (?n div batch_size s)"
    using b by (simp add: len_def)
  have "\<lfloor>real (length (indices s)) / real_of_int (batch_size s)\<rfloor>
          = \<lfloor>real_of_int ?n / real_of_int (batch_size s)\<rfloor>"
    by simp
  also have "\<dots> = ?n div batch_size s"
    by (rule floor_divide_of_int_eq)
  finally have fl: "?n div batch_size s = \<lfloor>real (length (indices s)) / real_of_int (batch_size s)\<rfloor>"
    by simp
  have neg: "(- ?n) div batch_size s =
               (if ?n mod batch_size s = 0 then - (?n div batch_size s)
                else - (?n div batch_size s) - 1)"
    using b by (intro zdiv_zminus1_eq_if) simp
  have lt: "?n div batch_size s < int (length bs) \<longleftrightarrow> ?n mod batch_size s \<noteq> 0"
    by (simp add: bs(2) neg)
  have eq: "?n mod batch_size s = 0 \<longrightarrow> ?n div batch_size s = int (length bs)"
    by (simp add: bs(2) neg)
  show ?thesis
  proof (intro exI conjI)
    show "len s = Inr (?n div batch_size s)" by (rule k)
    show "iterate s rp = Inr bs" by (rule bs(1))
  qed (rule fl lt eq)+
qed

lemma example_is_randperm:
  "is_randperm (length (indices example_sampler)) example_randperm"
  by (simp add: is_randperm_def example_randperm_def example_sampler_def BatchSampler_def
      torch_arange_def upt_rec)

lemma example_iterate:
  "iterate example_sampler example_randperm = Inr [[13, 10], [14, 11], [12]]"
  by (simp add: iterate_def example_sampler_def BatchSampler_def example_randperm_def
      py_range_def range_from.simps py_slice_def slice_bound_def np_getitem_def Let_def)

text \<open>
  Five indices in batches of two, shuffled by the permutation \<open>3, 0, 4, 1, 2\<close>: three
  batches, the last one short.
\<close>

theorem iterate_partitions_indices_witness:
  "iterate example_sampler example_randperm = Inr [[13, 10], [14, 11], [12]]
   \<and> (\<exists>bs. iterate example_sampler example_randperm = Inr bs
       \<and> int (length bs) = \<lceil>real (length (indices example_sampler)) / real_of_int (batch_size example_sampler)\<rceil>
       \<and> sum_list (map length bs) = length (indices example_sampler)
       \<and> mset (concat bs) = mset (indices example_sampler)
       \<and> (\<not> shuffle example_sampler \<longrightarrow> concat bs = indices example_sampler)
       \<and> (indices example_sampler = [] \<longrightarrow> bs = []))"
proof -
  have b: "1 \<le> batch_size example_sampler"
    by (simp add: example_sampler_def BatchSampler_def)
  have rp: "shuffle example_sampler \<longrightarrow> is_randperm (length (indices example_sampler)) example_randperm"
    using example_is_randperm by simp
  show ?thesis
    using iterate_partitions_indices [OF b rp] example_iterate by simp
qed

text \<open>On the same sampler \<open>__len__\<close> is 2, one less than the three batches.\<close>

theorem len_undercounts_iterate_witness:
  "len example_sampler = Inr 2
   \<and> (\<exists>k bs. len example_sampler = Inr k \<and> iterate example_sampler example_randperm = Inr bs
       \<and> k = \<lfloor>real (length (indices example_sampler)) / real_of_int (batch_size example_sampler)\<rfloor>
       \<and> (k < int (length bs) \<longleftrightarrow> int (length (indices example_sampler)) mod batch_size example_sampler \<noteq> 0)
       \<and> (int (length (indices example_sampler)) mod batch_size example_sampler = 0 \<longrightarrow> k = int (length bs)))"
proof -
  have b: "1 \<le> batch_size example_sampler"
    by (simp add: example_sampler_def BatchSampler_def)
  have rp: "shuffle example_sampler \<longrightarrow> is_randperm (length (indices example_sampler)) example_randperm"
    using example_is_randperm by simp
  have "len example_sampler = Inr 2"
    by (simp add: len_def example_sampler_def BatchSampler_def)
  then show ?thesis
    using len_undercounts_iterate [OF b rp] by simp
qed

section \<open>Properties of the constructor of ScviDataLoader\<close>





lemma init_configured:
  "uns adata ''_scvi'' = Some scvi \<Longrightarrow>
     ScviDataLoader_init h adata sh ia uc b r daa =
       (case check_registered (uns adata) (resolved_keys daa) of
          Inl e \<Rightarrow> Inl e
        | Inr _ \<Rightarrow>
            (let ds = ScviDataset adata daa;
                 sel = select_indices ds sh ia b;
                 sampler = BatchSampler (indices (snd sel)) (batch_size (snd sel)) (shuffle (snd sel));
                 h' = (h @ [(h ! r)(''sampler'' \<mapsto> Sampler sampler, ''batch_size'' \<mapsto> PyNone)])
             in Inr (\<lparr>data_and_attributes =
                        (case daa of None \<Rightarrow> default_data_and_attributes | Some d \<Rightarrow> d),
                      dataset = ds, to_monitor = [], use_cuda = uc, loader_indices = fst sel,
                      sampler_kwargs = snd sel, data_loader_kwargs = length h,
                      DataLoader_dataset = ds,
                      DataLoader_kwargs = (h ! r)(''sampler'' \<mapsto> Sampler sampler, ''batch_size'' \<mapsto> PyNone)\<rparr>,
                     h')))"
  by (simp add: ScviDataLoader_init_def resolved_keys_def copy_copy_def dict_update_def Let_def
      split: sum.splits)



lemma init_Inr:
  assumes "ScviDataLoader_init h adata sh ia uc b r daa = Inr (loader, h')"
  shows "loader =
           \<lparr>data_and_attributes = (case daa of None \<Rightarrow> default_data_and_attributes | Some d \<Rightarrow> d),
            dataset = ScviDataset adata daa, to_monitor = [], use_cuda = uc,
            loader_indices = fst (select_indices (ScviDataset adata daa) sh ia b),
            sampler_kwargs = snd (select_indices (ScviDataset adata daa) sh ia b),
            data_loader_kwargs = length h,
            DataLoader_dataset = ScviDataset adata daa,
            DataLoader_kwargs =
              (h ! r)(''sampler'' \<mapsto> Sampler (snd (select_indices (ScviDataset adata daa) sh ia b)),
                      ''batch_size'' \<mapsto> PyNone)\<rparr>"
    and "h' = h @ [(h ! r)(''sampler'' \<mapsto> Sampler (snd (select_indices (ScviDataset adata daa) sh ia b)),
                          ''batch_size'' \<mapsto> PyNone)]"
proof -
  from assms obtain scvi where scvi: "uns adata ''_scvi'' = Some scvi"
    by (cases "uns adata ''_scvi''") (simp_all add: ScviDataLoader_init_def)
  have same: "BatchSampler (indices x) (batch_size x) (shuffle x) = x" for x
    by (simp add: BatchSampler_def)
  from assms show "loader = \<lparr>data_and_attributes = (case daa of None \<Rightarrow> default_data_and_attributes | Some d \<Rightarrow> d),
            dataset = ScviDataset adata daa, to_monitor = [], use_cuda = uc,
            loader_indices = fst (select_indices (ScviDataset adata daa) sh ia b),
            sampler_kwargs = snd (select_indices (ScviDataset adata daa) sh ia b),
            data_loader_kwargs = length h,
            DataLoader_dataset = ScviDataset adata daa,
            DataLoader_kwargs =
              (h ! r)(''sampler'' \<mapsto> Sampler (snd (select_indices (ScviDataset adata daa) sh ia b)),
                      ''batch_size'' \<mapsto> PyNone)\<rparr>"
    by (simp add: init_configured [OF scvi] Let_def same split: sum.splits)
  from assms show "h' = h @ [(h ! r)(''sampler'' \<mapsto> Sampler (snd (select_indices (ScviDataset adata daa) sh ia b)),
                          ''batch_size'' \<mapsto> PyNone)]"
    by (simp add: init_configured [OF scvi] Let_def same split: sum.splits)
qed

text \<open>
  Claim C4. Whenever the constructor succeeds, the BatchSampler it builds has
  \<open>shuffle = True\<close> if explicit indices were supplied, whatever the caller's shuffle flag;
  if no indices were supplied, its shuffle setting is the caller's flag and its indices
  are the full range \<open>[0, len(dataset))\<close>.
\<close>

theorem explicit_indices_always_shuffle:
  assumes "ScviDataLoader_init h adata sh ia uc b r daa = Inr (loader, h')"
  shows "\<exists>smp. DataLoader_kwargs loader ''sampler'' = Some (Sampler smp)
           \<and> smp = sampler_kwargs loader
           \<and> (ia \<noteq> None \<longrightarrow> shuffle smp = True)
           \<and> (ia = None \<longrightarrow> shuffle smp = sh
                 \<and> indices smp = map int [0..<dataset_len (dataset loader)])"
proof -
  note l = init_Inr(1) [OF assms]
  have "ia \<noteq> None \<longrightarrow> shuffle (sampler_kwargs loader) = True"
    by (auto simp: l select_indices_def Let_def)
  moreover have "ia = None \<longrightarrow> shuffle (sampler_kwargs loader) = sh
      \<and> indices (sampler_kwargs loader) = map int [0..<dataset_len (dataset loader)]"
    by (simp add: l select_indices_def Let_def np_arange_def)
  moreover have "DataLoader_kwargs loader ''sampler'' = Some (Sampler (sampler_kwargs loader))"
    by (simp add: l)
  ultimately show ?thesis
    by blast
qed

text \<open>
  Claim C6. When \<open>indices\<close> is a boolean mask, the indices of the sampler are the positions
  at which the mask is true, in ascending order (\<open>where(mask)\<close>); when \<open>indices\<close> is a list
  or array of positions, they are used as they are. The constructor does not compare the
  length of the mask with that of the dataset, so this holds for a mask of any length,
  the dataset's in particular.
\<close>

theorem mask_selects_true_positions:
  assumes "ScviDataLoader_init h adata sh (Some given) uc b r daa = Inr (loader, h')"
  shows "\<exists>smp. DataLoader_kwargs loader ''sampler'' = Some (Sampler smp)
           \<and> (\<forall>msk. given = BoolMask msk \<longrightarrow>
                 indices smp = map int (filter (\<lambda>i. msk ! i) [0..<length msk]))
           \<and> (\<forall>ps. given = Positions ps \<longrightarrow> indices smp = ps)"
proof -
  note l = init_Inr(1) [OF assms]
  have "DataLoader_kwargs loader ''sampler'' = Some (Sampler (sampler_kwargs loader))"
    by (simp add: l)
  moreover have "\<forall>msk. given = BoolMask msk \<longrightarrow>
      indices (sampler_kwargs loader) = map int (filter (\<lambda>i. msk ! i) [0..<length msk])"
    by (simp add: l select_indices_def Let_def np_where_def)
  moreover have "\<forall>ps. given = Positions ps \<longrightarrow> indices (sampler_kwargs loader) = ps"
    by (simp add: l select_indices_def Let_def)
  ultimately show ?thesis
    by blast
qed

text \<open>
  Claim C9. The constructor never changes the caller's \<open>data_loader_kwargs\<close> dictionary:
  the object at the caller's reference, like every object of the store before the call,
  is the same afterwards, and the loader's own dictionary is a new object. In the
  keyword arguments passed to torch's DataLoader the entry \<open>sampler\<close> is the loader's own
  BatchSampler and the entry \<open>batch_size\<close> is \<open>None\<close>, whatever the caller supplied under
  those keys; every other entry is the caller's.
\<close>

theorem init_copies_kwargs:
  assumes init: "ScviDataLoader_init h adata sh ia uc b r daa = Inr (loader, h')"
    and ref: "r < length h"
  shows "h' ! r = h ! r
       \<and> (\<forall>a<length h. h' ! a = h ! a)
       \<and> data_loader_kwargs loader \<noteq> r
       \<and> h' ! data_loader_kwargs loader = DataLoader_kwargs loader
       \<and> DataLoader_kwargs loader ''sampler''
            = Some (Sampler (BatchSampler (indices (sampler_kwargs loader))
                 (batch_size (sampler_kwargs loader)) (shuffle (sampler_kwargs loader))))
       \<and> DataLoader_kwargs loader ''batch_size'' = Some PyNone
       \<and> (\<forall>k. k \<noteq> ''sampler'' \<and> k \<noteq> ''batch_size'' \<longrightarrow> DataLoader_kwargs loader k = (h ! r) k)"
proof -
  note l = init_Inr(1) [OF init] and h' = init_Inr(2) [OF init]
  have "h' ! r = h ! r"
    using ref by (simp add: h' nth_append)
  moreover have "\<forall>a<length h. h' ! a = h ! a"
    by (simp add: h' nth_append)
  moreover have "data_loader_kwargs loader \<noteq> r"
    using ref by (simp add: l)
  moreover have "h' ! data_loader_kwargs loader = DataLoader_kwargs loader"
    by (simp add: l h')
  moreover have "DataLoader_kwargs loader ''sampler''
            = Some (Sampler (BatchSampler (indices (sampler_kwargs loader))
                 (batch_size (sampler_kwargs loader)) (shuffle (sampler_kwargs loader))))"
    by (simp add: l BatchSampler_def)
  moreover have "DataLoader_kwargs loader ''batch_size'' = Some PyNone"
    by (simp add: l)
  moreover have "\<forall>k. k \<noteq> ''sampler'' \<and> k \<noteq> ''batch_size'' \<longrightarrow> DataLoader_kwargs loader k = (h ! r) k"
    by (simp add: l)
  ultimately show ?thesis
    by blast
qed

lemma example_adata_scvi:
  "uns example_adata ''_scvi'' = Some [''data_registry'' \<mapsto> example_registry]"
  by (simp add: example_adata_def)

lemma example_default_registered:
  "check_registered (uns example_adata) (resolved_keys None) = Inr ()"
  by (simp add: example_adata_def example_registry_def resolved_keys_def
      default_data_and_attributes_def X_KEY_def BATCH_KEY_def LOCAL_L_MEAN_KEY_def
      LOCAL_L_VAR_KEY_def LABELS_KEY_def)

text \<open>
  Claim C5. With no FieldSpec supplied the resolved FieldSpec is the five default fields
  with their dtypes, and the claim continues that this resolved FieldSpec is what selects
  and casts the per-item fields of the dataset view. The constructor resolves the default
  into \<open>self._data_and_attributes\<close> and checks the registry against it, but constructs the
  dataset view from its argument \<open>data_and_attributes\<close>, which is still \<open>None\<close>: on a
  container with the five default fields (and one more) registered the construction
  succeeds, the resolved FieldSpec is the five defaults, and the view was given no
  FieldSpec at all.
\<close>

theorem default_spec_not_given_to_dataset:
  "\<exists>loader h'.
     ScviDataLoader_init example_store example_adata False None True 128 0 None = Inr (loader, h')
     \<and> data_and_attributes loader =
         [(''X'', float32), (''batch'', int64), (''local_l_mean'', float32),
          (''local_l_var'', float32), (''labels'', int64)]
     \<and> getitem_tensors (dataset loader) = None
     \<and> getitem_tensors (DataLoader_dataset loader) = None"
  by (simp add: init_configured [OF example_adata_scvi] example_default_registered Let_def
      ScviDataset_def default_data_and_attributes_def X_KEY_def BATCH_KEY_def
      LOCAL_L_MEAN_KEY_def LOCAL_L_VAR_KEY_def LABELS_KEY_def)

lemma init_succeeds:
  assumes "uns adata ''_scvi'' = Some scvi"
    and "check_registered (uns adata) (resolved_keys daa) = Inr ()"
  shows "\<exists>loader h'. ScviDataLoader_init h adata sh ia uc b r daa = Inr (loader, h')"
  using assms by (simp add: init_configured Let_def)

lemmas example_init_succeeds =
  init_succeeds [OF example_adata_scvi example_default_registered]


text \<open>
  With \<open>shuffle = False\<close>: explicit positions \<open>3, 1\<close> give a shuffling sampler, no indices
  give a sampler in order over the four rows.
\<close>

theorem explicit_indices_always_shuffle_witness:
  "(\<exists>loader h' smp.
      ScviDataLoader_init example_store example_adata False (Some (Positions [3, 1])) True 2 0 None
        = Inr (loader, h')
      \<and> DataLoader_kwargs loader ''sampler'' = Some (Sampler smp) \<and> shuffle smp = True)
   \<and> (\<exists>loader h' smp.
      ScviDataLoader_init example_store example_adata False None True 2 0 None = Inr (loader, h')
      \<and> DataLoader_kwargs loader ''sampler'' = Some (Sampler smp) \<and> shuffle smp = False
      \<and> indices smp = [0, 1, 2, 3])"
proof
  obtain loader h' where init:
    "ScviDataLoader_init example_store example_adata False (Some (Positions [3, 1])) True 2 0 None
       = Inr (loader, h')"
    using example_init_succeeds by blast
  from explicit_indices_always_shuffle [OF init] init
  show "\<exists>loader h' smp.
      ScviDataLoader_init example_store example_adata False (Some (Positions [3, 1])) True 2 0 None
        = Inr (loader, h')
      \<and> DataLoader_kwargs loader ''sampler'' = Some (Sampler smp) \<and> shuffle smp = True"
    by auto
next
  obtain loader h' where init:
    "ScviDataLoader_init example_store example_adata False None True 2 0 None = Inr (loader, h')"
    using example_init_succeeds by blast
  have "dataset_len (dataset loader) = 4"
    using init_Inr(1) [OF init] by (simp add: dataset_len_def ScviDataset_def example_adata_def)
  then have "map int [0..<dataset_len (dataset loader)] = [0, 1, 2, 3]"
    by (simp add: upt_rec)
  with explicit_indices_always_shuffle [OF init] init
  show "\<exists>loader h' smp.
      ScviDataLoader_init example_store example_adata False None True 2 0 None = Inr (loader, h')
      \<and> DataLoader_kwargs loader ''sampler'' = Some (Sampler smp) \<and> shuffle smp = False
      \<and> indices smp = [0, 1, 2, 3]"
    by auto
qed

text \<open>The mask \<open>True, False, True, True\<close> selects the positions 0, 2 and 3.\<close>

theorem mask_selects_true_positions_witness:
  "\<exists>loader h' smp.
      ScviDataLoader_init example_store example_adata False
        (Some (BoolMask [True, False, True, True])) True 2 0 None = Inr (loader, h')
      \<and> DataLoader_kwargs loader ''sampler'' = Some (Sampler smp) \<and> indices smp = [0, 2, 3]"
proof -
  obtain loader h' where init:
    "ScviDataLoader_init example_store example_adata False
        (Some (BoolMask [True, False, True, True])) True 2 0 None = Inr (loader, h')"
    using example_init_succeeds by blast
  have "map int (filter (\<lambda>i. [True, False, True, True] ! i) [0..<length [True, False, True, True]])
          = [0, 2, 3]"
    by (simp add: upt_rec)
  with mask_selects_true_positions [OF init] init show ?thesis
    by auto
qed

text \<open>
  The caller's dictionary still asks for a batch size of 64 and has no sampler; the
  DataLoader receives \<open>batch_size = None\<close>, the loader's sampler, and the two workers.
\<close>

theorem init_copies_kwargs_witness:
  "\<exists>loader h'.
      ScviDataLoader_init example_store example_adata False None True 2 0 None = Inr (loader, h')
      \<and> h' ! 0 = example_store ! 0
      \<and> (h' ! 0) ''batch_size'' = Some (PyInt 64)
      \<and> (h' ! 0) ''sampler'' = None
      \<and> DataLoader_kwargs loader ''batch_size'' = Some PyNone
      \<and> DataLoader_kwargs loader ''sampler'' = Some (Sampler (sampler_kwargs loader))
      \<and> DataLoader_kwargs loader ''num_workers'' = Some (PyInt 2)"
proof -
  obtain loader h' where init:
    "ScviDataLoader_init example_store example_adata False None True 2 0 None = Inr (loader, h')"
    using example_init_succeeds by blast
  have ref: "0 < length example_store"
    by (simp add: example_store_def)
  have same: "BatchSampler (indices x) (batch_size x) (shuffle x) = x" for x
    by (simp add: BatchSampler_def)
  have caller: "(example_store ! 0) ''batch_size'' = Some (PyInt 64)
      \<and> (example_store ! 0) ''sampler'' = None
      \<and> (example_store ! 0) ''num_workers'' = Some (PyInt 2)"
    by (simp add: example_store_def)
  from init_copies_kwargs [OF init ref] init caller show ?thesis
    by (auto simp: same)
qed

section \<open>Properties of SCVILoss\<close>

lemma get_dict_sum_eq: "get_dict_sum d = sum_list (map snd d)"
proof -
  have "foldl (\<lambda>sum value. sum + value) a xs = a + sum_list xs" for a :: 'a and xs
    by (induction xs arbitrary: a) (simp_all add: add.assoc)
  then show ?thesis
    by (simp add: get_dict_sum_def)
qed

text \<open>
  Claim C7. The constructor of SCVILoss turns each of its four arguments, when given
  bare, into a one-entry dictionary under the default name (\<open>loss\<close>,
  \<open>reconstruction_loss\<close>, \<open>kl_local\<close>, \<open>kl_global\<close>) and keeps a dictionary as it is; each
  property returns the sum of the terms of its category; so a bare value is read back
  unchanged, the bare scalars 2.0, 3.0, 0.5 and 0.1 are read back as such, and
  \<open>reconstruction_loss = {"a": 1.0, "b": 1.5}\<close> reads 2.5. The constructor is a total
  function with no error result: it rejects no input.
\<close>

theorem SCVILoss_sums_named_terms:
  "loss_dict (SCVILoss (Bare a) r l g) = [(''loss'', a)]
   \<and> reconstruction_loss_dict (SCVILoss t (Bare b) l g) = [(''reconstruction_loss'', b)]
   \<and> kl_local_dict (SCVILoss t r (Bare c) g) = [(''kl_local'', c)]
   \<and> kl_global_dict (SCVILoss t r l (Bare d)) = [(''kl_global'', d)]
   \<and> loss_dict (SCVILoss (Named ta) r l g) = ta
   \<and> reconstruction_loss_dict (SCVILoss t (Named tb) l g) = tb
   \<and> kl_local_dict (SCVILoss t r (Named tc) g) = tc
   \<and> kl_global_dict (SCVILoss t r l (Named td)) = td
   \<and> loss self = sum_list (map snd (loss_dict self))
   \<and> reconstruction_loss self = sum_list (map snd (reconstruction_loss_dict self))
   \<and> kl_local self = sum_list (map snd (kl_local_dict self))
   \<and> kl_global self = sum_list (map snd (kl_global_dict self))
   \<and> loss (SCVILoss (Bare a) r l g) = a
   \<and> reconstruction_loss (SCVILoss t (Bare b) l g) = b
   \<and> kl_local (SCVILoss t r (Bare c) g) = c
   \<and> kl_global (SCVILoss t r l (Bare d)) = d
   \<and> loss (SCVILoss (Bare 2) (Bare 3) (Bare 0.5) (Bare 0.1)) = (2 :: real)
   \<and> reconstruction_loss (SCVILoss (Bare 2) (Bare 3) (Bare 0.5) (Bare 0.1)) = (3 :: real)
   \<and> kl_local (SCVILoss (Bare 2) (Bare 3) (Bare 0.5) (Bare 0.1)) = (0.5 :: real)
   \<and> kl_global (SCVILoss (Bare 2) (Bare 3) (Bare 0.5) (Bare 0.1)) = (0.1 :: real)
   \<and> reconstruction_loss (SCVILoss x (Named [(''a'', 1), (''b'', 1.5)]) y z) = (2.5 :: real)"
  by (simp add: SCVILoss_def loss_def reconstruction_loss_def kl_local_def kl_global_def
      get_dict_sum_eq)

section \<open>Properties of forward\<close>

lemma forward_stages:
  "forward m t p1 p2 p3 p4 p5 c s0 = Inr (r, s') \<longleftrightarrow>
     (\<exists>ii s1 a1 i s2 gi s3 a2 g s4.
        get_inference_input m t (get_dict_if_none p1) s0 = Inr (ii, s1)
        \<and> merge_kwargs ii (get_dict_if_none p3) = Inr a1
        \<and> inference m a1 s1 = Inr (i, s2)
        \<and> get_generative_input m t i (get_dict_if_none p2) s2 = Inr (gi, s3)
        \<and> merge_kwargs gi (get_dict_if_none p4) = Inr a2
        \<and> generative m a2 s3 = Inr (g, s4)
        \<and> (if c then \<exists>l. loss_hook m t i g (get_dict_if_none p5) s4 = Inr (l, s')
                          \<and> r = Three_tuple i g l
            else r = Two_tuple i g \<and> s' = s4))"
  by (auto simp: forward_def and_then_def returns_def raise_or_return_def Let_def
      split: sum.splits prod.splits)

lemma logged_Inr:
  "logged name c (s, tr) = Inr (x, (s', tr')) \<longleftrightarrow> c s = Inr (x, s') \<and> tr' = tr @ [name]"
  by (auto simp: logged_def split: sum.splits)

lemma forward_instrument:
  "forward (instrument m) t p1 p2 p3 p4 p5 c (s0, tr0) = Inr (r, (s', tr)) \<longleftrightarrow>
     forward m t p1 p2 p3 p4 p5 c s0 = Inr (r, s')
     \<and> tr = tr0 @ [''_get_inference_input'', ''inference'', ''_get_generative_input'', ''generative'']
               @ (if c then [''loss''] else [])"
  unfolding forward_stages
  by (cases c) (auto simp: instrument_def logged_Inr)

lemma forward_without_loss:
  "forward (m\<lparr>loss_hook := f\<rparr>) t p1 p2 p3 p4 p5 False = forward m t p1 p2 p3 p4 p5 False"
  by (simp add: forward_def)

lemma forward_normalises:
  "forward m t p1 p2 p3 p4 p5 c =
     forward m t (ParamDict (get_dict_if_none p1)) (ParamDict (get_dict_if_none p2))
       (ParamDict (get_dict_if_none p3)) (ParamDict (get_dict_if_none p4))
       (ParamDict (get_dict_if_none p5)) c"
  by (simp add: forward_def get_dict_if_none_def)

lemma not_dict_empty: "\<not> is_dict p \<Longrightarrow> get_dict_if_none p = []"
  by (cases p) (simp_all add: is_dict_def get_dict_if_none_def)

lemma example_forward_loss:
  "forward example_vae 3 ParamNone ParamNone (ParamDict [(''offset'', 1)]) ParamNone ParamNone True 0
     = Inr (Three_tuple 4 8 (SCVILoss (Bare 5) (Bare 5) (Bare 0) (Bare 0)), 5)"
  by (simp add: forward_def example_vae_def and_then_def returns_def raise_or_return_def
      merge_kwargs_def get_dict_if_none_def eval_nat_numeral)

lemma example_forward_no_loss:
  "forward example_vae 3 ParamNone ParamNone (ParamDict [(''offset'', 1)]) ParamNone ParamNone False 0
     = Inr (Two_tuple 4 8, 4)"
  by (simp add: forward_def example_vae_def and_then_def returns_def raise_or_return_def
      merge_kwargs_def get_dict_if_none_def eval_nat_numeral)

lemma example_forward_empty:
  "forward example_vae 3 (ParamDict []) (ParamDict []) (ParamDict []) (ParamDict []) (ParamDict [])
     True 0
     = Inr (Three_tuple 3 6 (SCVILoss (Bare 3) (Bare 3) (Bare 0) (Bare 0)), 5)"
  by (simp add: forward_def example_vae_def and_then_def returns_def raise_or_return_def
      merge_kwargs_def get_dict_if_none_def eval_nat_numeral)

text \<open>
  Claim C8. \<open>forward\<close> returns a result exactly when the four stages
  gather-inference-input, inference, gather-generative-input and generative return in
  this order, each one started in the state the previous one left and fed the previous
  outputs (the inference arguments are the gathered inputs joined with the inference
  overrides, and so on); with \<open>compute_loss\<close> the loss hook then runs on the tensors and
  both outputs and the result is the 3-tuple of the two outputs and what the loss hook
  returned; without it the result is the 2-tuple of the two outputs and the state is the
  one the generative step left. On a module that records its calls the record is the four
  stage names in that order, followed by \<open>loss\<close> exactly when \<open>compute_loss\<close> holds. Without
  \<open>compute_loss\<close>, \<open>forward\<close> is the same function whatever the loss hook is: the hook is not
  invoked.
\<close>

theorem forward_runs_stages_in_order:
  "(forward m t p1 p2 p3 p4 p5 c s0 = Inr (r, s') \<longleftrightarrow>
     (\<exists>ii s1 a1 i s2 gi s3 a2 g s4.
        get_inference_input m t (get_dict_if_none p1) s0 = Inr (ii, s1)
        \<and> merge_kwargs ii (get_dict_if_none p3) = Inr a1
        \<and> inference m a1 s1 = Inr (i, s2)
        \<and> get_generative_input m t i (get_dict_if_none p2) s2 = Inr (gi, s3)
        \<and> merge_kwargs gi (get_dict_if_none p4) = Inr a2
        \<and> generative m a2 s3 = Inr (g, s4)
        \<and> (if c then \<exists>l. loss_hook m t i g (get_dict_if_none p5) s4 = Inr (l, s')
                          \<and> r = Three_tuple i g l
            else r = Two_tuple i g \<and> s' = s4)))
   \<and> (forward (instrument m) t p1 p2 p3 p4 p5 c (s0, []) = Inr (r, (s', tr)) \<longleftrightarrow>
        forward m t p1 p2 p3 p4 p5 c s0 = Inr (r, s')
        \<and> tr = [''_get_inference_input'', ''inference'', ''_get_generative_input'', ''generative'']
                 @ (if c then [''loss''] else []))
   \<and> forward (m\<lparr>loss_hook := f\<rparr>) t p1 p2 p3 p4 p5 False = forward m t p1 p2 p3 p4 p5 False"
proof (intro conjI)
  show "forward (m\<lparr>loss_hook := f\<rparr>) t p1 p2 p3 p4 p5 False = forward m t p1 p2 p3 p4 p5 False"
    by (rule forward_without_loss)
  show "forward (instrument m) t p1 p2 p3 p4 p5 c (s0, []) = Inr (r, (s', tr)) \<longleftrightarrow>
        forward m t p1 p2 p3 p4 p5 c s0 = Inr (r, s')
        \<and> tr = [''_get_inference_input'', ''inference'', ''_get_generative_input'', ''generative'']
                 @ (if c then [''loss''] else [])"
    using forward_instrument [of m t p1 p2 p3 p4 p5 c s0 "[]" r s' tr] by simp
qed (rule forward_stages)

text \<open>
  On the example module with input 3 and \<open>offset = 1\<close>: five recorded calls and a 3-tuple
  with \<open>compute_loss\<close>, four calls and a 2-tuple without, also when the loss method is one
  that always raises.
\<close>

theorem forward_runs_stages_in_order_witness:
  "forward (instrument example_vae) 3 ParamNone ParamNone (ParamDict [(''offset'', 1)]) ParamNone
      ParamNone True (0, [])
     = Inr (Three_tuple 4 8 (SCVILoss (Bare 5) (Bare 5) (Bare 0) (Bare 0)),
            (5, [''_get_inference_input'', ''inference'', ''_get_generative_input'', ''generative'',
                 ''loss'']))
   \<and> forward (instrument example_vae) 3 ParamNone ParamNone (ParamDict [(''offset'', 1)]) ParamNone
      ParamNone False (0, [])
     = Inr (Two_tuple 4 8,
            (4, [''_get_inference_input'', ''inference'', ''_get_generative_input'', ''generative'']))
   \<and> forward (example_vae\<lparr>loss_hook := failing_loss\<rparr>) 3 ParamNone ParamNone
        (ParamDict [(''offset'', 1)]) ParamNone ParamNone False 0
     = Inr (Two_tuple 4 8, 4)"
proof (intro conjI)
  let ?names = "[''_get_inference_input'', ''inference'', ''_get_generative_input'', ''generative'']"
  show "forward (instrument example_vae) 3 ParamNone ParamNone (ParamDict [(''offset'', 1)]) ParamNone
      ParamNone True (0, [])
     = Inr (Three_tuple 4 8 (SCVILoss (Bare 5) (Bare 5) (Bare 0) (Bare 0)),
            (5, [''_get_inference_input'', ''inference'', ''_get_generative_input'', ''generative'',
                 ''loss'']))"
    using forward_runs_stages_in_order [of example_vae 3 ParamNone ParamNone
        "ParamDict [(''offset'', 1)]" ParamNone ParamNone True 0
        "Three_tuple 4 8 (SCVILoss (Bare 5) (Bare 5) (Bare 0) (Bare 0))" 5 "?names @ [''loss'']"]
      example_forward_loss by simp
  show "forward (instrument example_vae) 3 ParamNone ParamNone (ParamDict [(''offset'', 1)]) ParamNone
      ParamNone False (0, [])
     = Inr (Two_tuple 4 8,
            (4, [''_get_inference_input'', ''inference'', ''_get_generative_input'', ''generative'']))"
    using forward_runs_stages_in_order [of example_vae 3 ParamNone ParamNone
        "ParamDict [(''offset'', 1)]" ParamNone ParamNone False 0 "Two_tuple 4 8" 4 ?names]
      example_forward_no_loss by simp
  show "forward (example_vae\<lparr>loss_hook := failing_loss\<rparr>) 3 ParamNone ParamNone
        (ParamDict [(''offset'', 1)]) ParamNone ParamNone False 0
     = Inr (Two_tuple 4 8, 4)"
    using forward_runs_stages_in_order [of example_vae 3 ParamNone ParamNone
        "ParamDict [(''offset'', 1)]" ParamNone ParamNone False 0 "Two_tuple 4 8" 4 ?names failing_loss]
      example_forward_no_loss by simp
qed

text \<open>
  Claim C10. \<open>_get_dict_if_none\<close> returns the empty dictionary for every value that is not
  a dictionary, not only for \<open>None\<close>; so in each of the five override parameters of
  \<open>forward\<close> a value that is not a dictionary has the same effect as an empty dictionary:
  it is ignored, and it raises no error that the empty dictionary would not raise.
\<close>

theorem non_mapping_overrides_ignored:
  "(\<not> is_dict p \<longrightarrow> get_dict_if_none p = [])
   \<and> (\<not> is_dict p \<longrightarrow>
        forward m t p p2 p3 p4 p5 c = forward m t (ParamDict []) p2 p3 p4 p5 c)
   \<and> (\<not> is_dict p \<longrightarrow>
        forward m t p1 p p3 p4 p5 c = forward m t p1 (ParamDict []) p3 p4 p5 c)
   \<and> (\<not> is_dict p \<longrightarrow>
        forward m t p1 p2 p p4 p5 c = forward m t p1 p2 (ParamDict []) p4 p5 c)
   \<and> (\<not> is_dict p \<longrightarrow>
        forward m t p1 p2 p3 p p5 c = forward m t p1 p2 p3 (ParamDict []) p5 c)
   \<and> (\<not> is_dict p \<longrightarrow>
        forward m t p1 p2 p3 p4 p c = forward m t p1 p2 p3 p4 (ParamDict []) c)"
proof -
  have empty: "get_dict_if_none (ParamDict []) = ([] :: 'a kwdict)"
    by (simp add: get_dict_if_none_def)
  show ?thesis
  proof (cases "is_dict p")
    case True
    then show ?thesis by simp
  next
    case False
    then have p: "get_dict_if_none p = []"
      by (rule not_dict_empty)
    have "forward m t p p2 p3 p4 p5 c = forward m t (ParamDict []) p2 p3 p4 p5 c"
      by (subst forward_normalises, subst (2) forward_normalises) (simp only: p empty)
    moreover have "forward m t p1 p p3 p4 p5 c = forward m t p1 (ParamDict []) p3 p4 p5 c"
      by (subst forward_normalises, subst (2) forward_normalises) (simp only: p empty)
    moreover have "forward m t p1 p2 p p4 p5 c = forward m t p1 p2 (ParamDict []) p4 p5 c"
      by (subst forward_normalises, subst (2) forward_normalises) (simp only: p empty)
    moreover have "forward m t p1 p2 p3 p p5 c = forward m t p1 p2 p3 (ParamDict []) p5 c"
      by (subst forward_normalises, subst (2) forward_normalises) (simp only: p empty)
    moreover have "forward m t p1 p2 p3 p4 p c = forward m t p1 p2 p3 p4 (ParamDict []) c"
      by (subst forward_normalises, subst (2) forward_normalises) (simp only: p empty)
    ultimately show ?thesis
      using p by simp
  qed
qed

text \<open>
  The number 7 passed as \<open>inference_kwargs\<close> to the example module: the result is that of
  the call with no overrides.
\<close>

theorem non_mapping_overrides_ignored_witness:
  "\<not> is_dict (ParamOther (7 :: int))
   \<and> get_dict_if_none (ParamOther (7 :: int)) = []
   \<and> forward example_vae 3 (ParamDict []) (ParamDict []) (ParamOther 7) (ParamDict []) (ParamDict [])
        True 0
      = Inr (Three_tuple 3 6 (SCVILoss (Bare 3) (Bare 3) (Bare 0) (Bare 0)), 5)"
proof -
  have other: "\<not> is_dict (ParamOther (7 :: int))"
    by (simp add: is_dict_def)
  from non_mapping_overrides_ignored [where p = "ParamOther 7" and m = example_vae and t = 3
      and ?p1.0 = "ParamDict []" and ?p2.0 = "ParamDict []" and ?p3.0 = "ParamDict []"
      and ?p4.0 = "ParamDict []" and ?p5.0 = "ParamDict []" and c = True]
    other example_forward_empty
  show ?thesis
    by simp
qed

end
